theory Spec2Isabelle
  imports Main
begin

section \<open>JavaScript values\<close>

text \<open>
  The engine receives its schema, its documents and its \<open>where\<close> clauses as plain
  JavaScript objects, and inspects them at run time with \<open>typeof\<close>, \<open>Object.keys\<close> and
  \<open>for ... in\<close>. The values are modelled as they are at run time, not as the TypeScript
  types describe them. An object is the list of its own properties, each name once, in
  the order in which JavaScript enumerates them. Arrays, functions and \<open>undefined\<close> as a
  stored value are not modelled; of the properties that an object inherits from
  \<open>Object.prototype\<close>, the names are modelled where the source tests \<open>key in schema\<close>.
\<close>

text \<open>
  A number is \<open>NaN\<close>, an infinity, or a finite decimal \<open>Fin m k\<close>, standing for
  \<open>m / 10 ^ k\<close>. Every finite double is identified by its shortest decimal
  representation, and comparing these decimals compares the doubles.
\<close>

datatype jsnum = Fin int nat | NaN | PosInf | NegInf

datatype jsval =
    JStr string
  | JNum jsnum
  | JBool bool
  | JNull
  | JObj "(string \<times> jsval) list"

type_synonym obj = "(string \<times> jsval) list"

text \<open>\<open>typeof v\<close>; \<open>typeof null\<close> is \<open>"object"\<close>.\<close>

fun typeof :: "jsval \<Rightarrow> string" where
  "typeof (JStr s) = ''string''"
| "typeof (JNum n) = ''number''"
| "typeof (JBool b) = ''boolean''"
| "typeof JNull = ''object''"
| "typeof (JObj kvs) = ''object''"

subsection \<open>Numbers: comparison\<close>

text \<open>\<open>a < b\<close> on numbers; every comparison with \<open>NaN\<close> is false.\<close>

fun num_lt :: "jsnum \<Rightarrow> jsnum \<Rightarrow> bool" where
  "num_lt NaN b = False"
| "num_lt a NaN = False"
| "num_lt PosInf b = False"
| "num_lt NegInf NegInf = False"
| "num_lt NegInf b = True"
| "num_lt (Fin m k) PosInf = True"
| "num_lt (Fin m k) NegInf = False"
| "num_lt (Fin m k) (Fin n l) = (m * 10 ^ l < n * 10 ^ k)"

text \<open>\<open>a === b\<close> on numbers.\<close>

fun num_eq :: "jsnum \<Rightarrow> jsnum \<Rightarrow> bool" where
  "num_eq (Fin m k) (Fin n l) = (m * 10 ^ l = n * 10 ^ k)"
| "num_eq PosInf PosInf = True"
| "num_eq NegInf NegInf = True"
| "num_eq a b = False"

definition num_le :: "jsnum \<Rightarrow> jsnum \<Rightarrow> bool" where
  "num_le a b = (num_lt a b \<or> num_eq a b)"

text \<open>
  The key equality of a JavaScript \<open>Map\<close> (SameValueZero): as \<open>===\<close>, except that
  \<open>NaN\<close> is the same key as \<open>NaN\<close>.
\<close>

definition same_key :: "jsnum \<Rightarrow> jsnum \<Rightarrow> bool" where
  "same_key a b = ((a = NaN \<and> b = NaN) \<or> num_eq a b)"

subsection \<open>Numbers: conversion to and from strings\<close>

definition digit_char :: "nat \<Rightarrow> char" where
  "digit_char d = ''0123456789'' ! d"

fun digits :: "nat \<Rightarrow> string" where
  "digits n = (if n < 10 then [digit_char n] else digits (n div 10) @ [digit_char (n mod 10)])"

declare digits.simps [simp del]

text \<open>Trailing zeros of the fraction are not printed: \<open>Fin 150 2\<close> is \<open>1.5\<close>.\<close>

fun norm :: "int \<Rightarrow> nat \<Rightarrow> int \<times> nat" where
  "norm m 0 = (m, 0)"
| "norm m (Suc k) = (if m mod 10 = 0 then norm (m div 10) k else (m, Suc k))"

text \<open>
  \<open>String(v)\<close>, as a template literal \<open>`${v}`\<close> applies it to a number, in the plain
  decimal notation that JavaScript uses when \<open>1e-6 \<le> |v| < 1e21\<close>. The exponent notation
  of larger and smaller values is not modelled.
\<close>

fun toString :: "jsnum \<Rightarrow> string" where
  "toString NaN = ''NaN''"
| "toString PosInf = ''Infinity''"
| "toString NegInf = ''-Infinity''"
| "toString (Fin m k) =
     (case norm m k of (m', k') \<Rightarrow>
        (let a = nat \<bar>m'\<bar>; frac = digits (a mod 10 ^ k') in
           (if m' < 0 then ''-'' else '''') @ digits (a div 10 ^ k') @
           (if k' = 0 then '''' else ''.'' @ replicate (k' - length frac) (CHR ''0'') @ frac)))"

definition digit_of :: "char \<Rightarrow> nat option" where
  "digit_of c = map_of (zip ''0123456789'' [0, 1, 2, 3, 4, 5, 6, 7, 8, 9]) c"

fun parse_nat :: "nat \<Rightarrow> string \<Rightarrow> nat option" where
  "parse_nat acc [] = Some acc"
| "parse_nat acc (c # cs) =
     (case digit_of c of None \<Rightarrow> None | Some d \<Rightarrow> parse_nat (10 * acc + d) cs)"

text \<open>
  \<open>Number(s)\<close> on a string without a decimal point or an exponent (\<open>search\<close> applies it
  to the last segment of a string split at the dots): the empty string is \<open>0\<close>, a
  signed run of digits is that integer, the infinities are recognised, and anything else
  is \<open>NaN\<close>. \<open>Number(undefined)\<close> is \<open>NaN\<close>.
\<close>

definition Number :: "string option \<Rightarrow> jsnum" where
  "Number v =
     (case v of
        None \<Rightarrow> NaN
      | Some s \<Rightarrow>
          if s = '''' then Fin 0 0
          else if s = ''Infinity'' \<or> s = ''+Infinity'' then PosInf
          else if s = ''-Infinity'' then NegInf
          else (case s of
                  c # cs \<Rightarrow>
                    if c = CHR ''-'' \<and> cs \<noteq> [] then
                      (case parse_nat 0 cs of None \<Rightarrow> NaN | Some n \<Rightarrow> Fin (- int n) 0)
                    else if c = CHR ''+'' \<and> cs \<noteq> [] then
                      (case parse_nat 0 cs of None \<Rightarrow> NaN | Some n \<Rightarrow> Fin (int n) 0)
                    else (case parse_nat 0 s of None \<Rightarrow> NaN | Some n \<Rightarrow> Fin (int n) 0)
                | [] \<Rightarrow> Fin 0 0))"

subsection \<open>Strings and arrays\<close>

text \<open>\<open>s.split(sep)\<close> for a one-character separator.\<close>

fun js_split :: "char \<Rightarrow> string \<Rightarrow> string list" where
  "js_split sep [] = [[]]"
| "js_split sep (c # cs) =
     (if c = sep then [] # js_split sep cs
      else (case js_split sep cs of w # ws \<Rightarrow> (c # w) # ws | [] \<Rightarrow> [[c]]))"

text \<open>\<open>xs.join(sep)\<close>.\<close>

fun js_join :: "string \<Rightarrow> string list \<Rightarrow> string" where
  "js_join sep [] = []"
| "js_join sep [x] = x"
| "js_join sep (x # y # zs) = x @ sep @ js_join sep (y # zs)"

text \<open>\<open>xs.at(-n)\<close> for \<open>n > 0\<close>: \<open>undefined\<close> (here \<open>None\<close>) when the array is too short.\<close>

definition at_end :: "'a list \<Rightarrow> nat \<Rightarrow> 'a option" where
  "at_end xs n = (if 0 < n \<and> n \<le> length xs then Some (xs ! (length xs - n)) else None)"

subsection \<open>Sets and maps in insertion order\<close>

text \<open>
  A JavaScript \<open>Set\<close> iterates in insertion order and holds no element twice; it is a
  list, and \<open>add\<close> appends an element that is not there yet. A \<open>Map\<close> is an association
  list; \<open>set\<close> replaces the value of a key in place or appends a new entry, and
  \<open>delete\<close> removes the entry of a key.
\<close>

definition set_add :: "'a \<Rightarrow> 'a list \<Rightarrow> 'a list" where
  "set_add x xs = (if x \<in> set xs then xs else xs @ [x])"

fun map_set :: "'k \<Rightarrow> 'v \<Rightarrow> ('k \<times> 'v) list \<Rightarrow> ('k \<times> 'v) list" where
  "map_set k v [] = [(k, v)]"
| "map_set k v ((k', v') # kvs) =
     (if k' = k then (k, v) # kvs else (k', v') # map_set k v kvs)"

definition map_delete :: "'k \<Rightarrow> ('k \<times> 'v) list \<Rightarrow> ('k \<times> 'v) list" where
  "map_delete k kvs = filter (\<lambda>(k', v). k' \<noteq> k) kvs"

section \<open>Collaborators outside the source files\<close>

datatype error =
    LANGUAGE_NOT_SUPPORTED
  | INVALID_SCHEMA_TYPE
  | INVALID_PROPERTY
  | INVALID_QUERY_PARAMS
  | INVALID_DOC_SCHEMA
  | DOC_ID_DOES_NOT_EXISTS
  | UNABLE_TO_REMOVE
  | TypeError
  | RangeError

text \<open>
  The stemmer's list of languages and the tokenizer are imported from files that are not
  part of the sources; both are parameters. \<open>token_set text language\<close> is the set of tokens
  of a text, in its iteration order; \<open>tokenize_other v\<close> is what the tokenizer does when it
  is handed a value that is not a string (a failure, or a set of tokens), which happens in
  \<open>delete\<close> only; \<open>tokenizer_language\<close> is the language the tokenizer uses when the caller
  names none, as \<open>delete\<close> does.
\<close>

record env =
  SUPPORTED_LANGUAGES :: "string list"
  token_set :: "string \<Rightarrow> string \<Rightarrow> string list"
  tokenizer_language :: string
  tokenize_other :: "jsval \<Rightarrow> error + string list"

text \<open>
  Modelled from the spec: \<open>tokenize\<close> of \<open>./tokenizer\<close>, which is not among the source
  files. It fails with \<open>LanguageNotSupported\<close> if the language is not among the enumerated
  set, and otherwise returns the set of tokens of the text.
\<close>

definition tokenize :: "env \<Rightarrow> string \<Rightarrow> string \<Rightarrow> error + string list" where
  "tokenize E text language =
     (if language \<in> set (SUPPORTED_LANGUAGES E) then Inr (token_set E text language)
      else Inl LANGUAGE_NOT_SUPPORTED)"

subsection \<open>The text index\<close>

text \<open>
  Modelled from the spec: the class \<open>Trie\<close> of \<open>./prefix-tree/trie\<close>, which is not among
  the source files. By its contract it maps tokens to posting sets of document ids; the
  shape of the tree is not modelled. \<open>insert\<close> adds the id to the posting set of the token
  and is idempotent.
\<close>

type_synonym trie = "(string \<times> string list) list"

definition trie_insert :: "string \<Rightarrow> string \<Rightarrow> trie \<Rightarrow> trie" where
  "trie_insert token docID t =
     (case map_of t token of
        None \<Rightarrow> t @ [(token, [docID])]
      | Some ids \<Rightarrow> map_set token (set_add docID ids) t)"

text \<open>
  Modelled from the spec: \<open>remove(token, id)\<close> removes the id from the posting set of the
  token, and a token whose posting set becomes empty is no longer a terminal. The spec
  leaves open what the method returns; the model returns \<open>False\<close>, the value on which
  \<open>delete\<close> goes on.
\<close>

definition removeDocByWord :: "string \<Rightarrow> string \<Rightarrow> trie \<Rightarrow> bool \<times> trie" where
  "removeDocByWord token docID t =
     (False,
      filter (\<lambda>(w, ids). ids \<noteq> [])
        (map (\<lambda>(w, ids). if w = token then (w, removeAll docID ids) else (w, ids)) t))"

text \<open>The Levenshtein distance of two strings.\<close>

fun levenshtein :: "string \<Rightarrow> string \<Rightarrow> nat" where
  "levenshtein [] ys = length ys"
| "levenshtein (x # xs) [] = Suc (length xs)"
| "levenshtein (x # xs) (y # ys) =
     (if x = y then levenshtein xs ys
      else Suc (min (levenshtein xs (y # ys)) (min (levenshtein (x # xs) ys) (levenshtein xs ys))))"

text \<open>
  Modelled from the spec: \<open>find({term, exact, tolerance})\<close> returns a mapping from token to
  posting set. If \<open>exact\<close>, the posting set of the term when it is not empty; with
  tolerance 0 (also when no tolerance is given), the tokens of which the term is a prefix;
  with a positive tolerance, the tokens within that edit distance of the term.
\<close>

definition trie_find :: "trie \<Rightarrow> string \<Rightarrow> bool \<Rightarrow> nat option \<Rightarrow> (string \<times> string list) list" where
  "trie_find t term exact tolerance =
     (if exact then filter (\<lambda>(w, ids). w = term \<and> ids \<noteq> []) t
      else (case tolerance of
              None \<Rightarrow> filter (\<lambda>(w, ids). take (length term) w = term) t
            | Some n \<Rightarrow>
                if n = 0 then filter (\<lambda>(w, ids). take (length term) w = term) t
                else filter (\<lambda>(w, ids). levenshtein term w \<le> n) t))"

subsection \<open>Set algebra\<close>

text \<open>
  Modelled from the spec: \<open>setIntersection\<close> and \<open>setSubtraction\<close> of \<open>./utils\<close>, which
  is not among the source files. In the intersection a missing set (\<open>null\<close>, here
  \<open>None\<close>) is no constraint, and the result is \<open>null\<close> only if both sets are. The
  subtraction removes from its first argument, in place, the members of the second;
  \<open>search\<close> uses it for the ids it has emitted already.
\<close>

fun setIntersection :: "'a list option \<Rightarrow> 'a list option \<Rightarrow> 'a list option" where
  "setIntersection None None = None"
| "setIntersection (Some a) None = Some a"
| "setIntersection None (Some b) = Some b"
| "setIntersection (Some a) (Some b) = Some (filter (\<lambda>x. x \<in> set b) a)"

definition setSubtraction :: "'a list \<Rightarrow> 'a list \<Rightarrow> 'a list" where
  "setSubtraction a b = filter (\<lambda>x. x \<notin> set b) a"

section \<open>The engine\<close>

text \<open>
  The fields of the class \<open>Lyra\<close>. The document table and the three indices are maps in
  insertion order. A numeric index maps a number to a
  posting set and compares its keys as a JavaScript \<open>Map\<close> does. An object is the list
  of its own properties, each name once.
\<close>

type_synonym numeric_map = "(jsnum \<times> string list) list"

record lyra =
  defaultLanguage :: string
  schema :: obj
  docs :: "(string \<times> obj) list"
  index :: "(string \<times> trie) list"
  numericIndex :: "(string \<times> numeric_map) list"
  booleanIndex :: "(string \<times> string list) list"

fun num_get :: "jsnum \<Rightarrow> numeric_map \<Rightarrow> string list option" where
  "num_get n [] = None"
| "num_get n ((n', ids) # m) = (if same_key n' n then Some ids else num_get n m)"

fun num_set :: "jsnum \<Rightarrow> string list \<Rightarrow> numeric_map \<Rightarrow> numeric_map" where
  "num_set n ids [] = [(n, ids)]"
| "num_set n ids ((n', ids') # m) =
     (if same_key n' n then (n', ids) # m else (n', ids') # num_set n ids m)"

subsection \<open>Construction\<close>

text \<open>
  \<open>typeof prop\<close> for a member \<open>prop\<close> of \<open>Object.keys(schema)\<close>: a property name is a
  string.
\<close>

definition typeof_key :: "string \<Rightarrow> string" where
  "typeof_key prop = ''string''"

text \<open>
  \<open>buildIndex(schema, prefix)\<close>. A nested \<open>null\<close> has type \<open>"object"\<close>, and
  \<open>Object.keys(null)\<close> in the recursive call is a \<open>TypeError\<close>. A leaf that is none of
  the three strings falls through the chain of conditions.
\<close>

fun buildIndex :: "obj \<Rightarrow> string \<Rightarrow> lyra \<Rightarrow> error + lyra" where
  "buildIndex [] prefix s = Inr s"
| "buildIndex ((prop, JObj kvs) # rest) prefix s =
     (if typeof_key prop \<noteq> ''string'' then Inl INVALID_SCHEMA_TYPE
      else (case buildIndex kvs (prefix @ prop @ ''.'') s of
              Inl e \<Rightarrow> Inl e
            | Inr s' \<Rightarrow> buildIndex rest prefix s'))"
| "buildIndex ((prop, JNull) # rest) prefix s =
     (if typeof_key prop \<noteq> ''string'' then Inl INVALID_SCHEMA_TYPE else Inl TypeError)"
| "buildIndex ((prop, propValue) # rest) prefix s =
     (if typeof_key prop \<noteq> ''string'' then Inl INVALID_SCHEMA_TYPE
      else (let propName = prefix @ prop in
        if propValue = JStr ''string'' then
          buildIndex rest prefix (s\<lparr>index := map_set propName [] (index s)\<rparr>)
        else if propValue = JStr ''boolean'' then
          buildIndex rest prefix
            (s\<lparr>booleanIndex :=
                 map_set (propName @ ''_false'') []
                   (map_set (propName @ ''_true'') [] (booleanIndex s))\<rparr>)
        else if propValue = JStr ''number'' then
          buildIndex rest prefix (s\<lparr>numericIndex := map_set propName [] (numericIndex s)\<rparr>)
        else buildIndex rest prefix s))"

definition toLowerCase :: "string \<Rightarrow> string" where
  "toLowerCase str =
     map (\<lambda>c. case map_of (zip ''ABCDEFGHIJKLMNOPQRSTUVWXYZ'' ''abcdefghijklmnopqrstuvwxyz'') c of
                 None \<Rightarrow> c | Some l \<Rightarrow> l) str"

text \<open>The constructor: \<open>new Lyra({schema, defaultLanguage})\<close>.\<close>

definition new_Lyra :: "env \<Rightarrow> obj \<Rightarrow> string option \<Rightarrow> error + lyra" where
  "new_Lyra E sch language =
     (let defaultLanguage = (case language of None \<Rightarrow> ''english'' | Some l \<Rightarrow> toLowerCase l) in
        if defaultLanguage \<notin> set (SUPPORTED_LANGUAGES E) then Inl LANGUAGE_NOT_SUPPORTED
        else buildIndex sch []
               \<lparr>defaultLanguage = defaultLanguage, schema = sch, docs = [],
                index = [], numericIndex = [], booleanIndex = []\<rparr>)"

subsection \<open>Insertion\<close>

text \<open>
  \<open>checkInsertDocSchema\<close>: the inner \<open>recursiveCheck(newDoc, schema)\<close>. For a value of type
  \<open>"object"\<close> the function calls itself on the value, with the same \<open>schema\<close>, and does
  not use what the call returns; \<open>for ... in\<close> over \<open>null\<close> runs no iteration.
\<close>

definition Object_prototype_names :: "string list" where
  "Object_prototype_names =
     [''constructor'', ''__defineGetter__'', ''__defineSetter__'', ''hasOwnProperty'',
      ''__lookupGetter__'', ''__lookupSetter__'', ''isPrototypeOf'', ''propertyIsEnumerable'',
      ''toString'', ''valueOf'', ''__proto__'', ''toLocaleString'']"

text \<open>
  \<open>key in schema\<close>: the schema has the property itself or inherits it from
  \<open>Object.prototype\<close>. What it inherits is a function or an object, never a string, so
  \<open>schema[key]\<close> is the name of a type only for a property of its own.
\<close>

definition key_in :: "string \<Rightarrow> obj \<Rightarrow> bool" where
  "key_in key sch = (key \<in> fst ` set sch \<or> key \<in> set Object_prototype_names)"

fun recursiveCheck :: "obj \<Rightarrow> obj \<Rightarrow> bool" where
  "recursiveCheck [] sch = True"
| "recursiveCheck ((key, JObj kvs) # rest) sch =
     (if \<not> key_in key sch then False
      else (let discarded = recursiveCheck kvs sch in recursiveCheck rest sch))"
| "recursiveCheck ((key, JNull) # rest) sch =
     (if \<not> key_in key sch then False
      else (let discarded = recursiveCheck [] sch in recursiveCheck rest sch))"
| "recursiveCheck ((key, v) # rest) sch =
     (if \<not> key_in key sch then False
      else if map_of sch key \<noteq> Some (JStr (typeof v)) then False
      else recursiveCheck rest sch)"

definition checkInsertDocSchema :: "lyra \<Rightarrow> obj \<Rightarrow> bool" where
  "checkInsertDocSchema s doc = recursiveCheck doc (schema s)"

text \<open>
  \<open>_insert\<close>: the inner \<open>recursiveTrieInsertion(doc, prefix)\<close>, with the id and the
  language of the enclosing call. It mutates the indices as it goes, so a failure leaves
  the state as it is at that point: the result is the error, if any, and the state.
  \<open>Object.keys(null)\<close> is a \<open>TypeError\<close>. An index that does not exist is skipped
  (\<open>?.\<close>).
\<close>

fun recursiveTrieInsertion ::
  "env \<Rightarrow> string \<Rightarrow> string \<Rightarrow> obj \<Rightarrow> string \<Rightarrow> lyra \<Rightarrow> error option \<times> lyra" where
  "recursiveTrieInsertion E docID language [] prefix s = (None, s)"
| "recursiveTrieInsertion E docID language ((key, JObj kvs) # rest) prefix s =
     (case recursiveTrieInsertion E docID language kvs (prefix @ key @ ''.'') s of
        (Some e, s') \<Rightarrow> (Some e, s')
      | (None, s') \<Rightarrow> recursiveTrieInsertion E docID language rest prefix s')"
| "recursiveTrieInsertion E docID language ((key, JNull) # rest) prefix s = (Some TypeError, s)"
| "recursiveTrieInsertion E docID language ((key, JStr text) # rest) prefix s =
     (let propName = prefix @ key in
        case tokenize E text language of
          Inl e \<Rightarrow> (Some e, s)
        | Inr tokens \<Rightarrow>
            recursiveTrieInsertion E docID language rest prefix
              (case map_of (index s) propName of
                 None \<Rightarrow> s
               | Some requestedTrie \<Rightarrow>
                   s\<lparr>index :=
                       map_set propName
                         (fold (\<lambda>token t. trie_insert token docID t) tokens requestedTrie)
                         (index s)\<rparr>))"
| "recursiveTrieInsertion E docID language ((key, JBool b) # rest) prefix s =
     (let name = prefix @ key @ ''_'' @ (if b then ''true'' else ''false'') in
        recursiveTrieInsertion E docID language rest prefix
          (case map_of (booleanIndex s) name of
             None \<Rightarrow> s
           | Some ids \<Rightarrow> s\<lparr>booleanIndex := map_set name (set_add docID ids) (booleanIndex s)\<rparr>))"
| "recursiveTrieInsertion E docID language ((key, JNum numericKey) # rest) prefix s =
     (let propName = prefix @ key in
        recursiveTrieInsertion E docID language rest prefix
          (case map_of (numericIndex s) propName of
             None \<Rightarrow> s
           | Some numericMap \<Rightarrow>
               s\<lparr>numericIndex :=
                   map_set propName
                     (case num_get numericKey numericMap of
                        Some ids \<Rightarrow> num_set numericKey (set_add docID ids) numericMap
                      | None \<Rightarrow> num_set numericKey [docID] numericMap)
                     (numericIndex s)\<rparr>))"

definition private_insert :: "env \<Rightarrow> lyra \<Rightarrow> string \<Rightarrow> obj \<Rightarrow> string \<Rightarrow> error option \<times> lyra" where
  "private_insert E s docID doc language =
     recursiveTrieInsertion E docID language doc [] (s\<lparr>docs := map_set docID doc (docs s)\<rparr>)"

text \<open>
  \<open>insert(doc, language)\<close>. The id that \<open>nanoid()\<close> generates is an argument. The call
  awaits the promise of \<open>queue.push\<close>, which settles when the worker \<open>_insert\<close> has run on
  the item, so a failure of the worker is a failure of \<open>insert\<close>. The result is paired
  with the state the call leaves behind.
\<close>

definition insert_doc ::
  "env \<Rightarrow> lyra \<Rightarrow> string \<Rightarrow> obj \<Rightarrow> string option \<Rightarrow> (error + string) \<times> lyra" where
  "insert_doc E s docID doc lang =
     (let language = (case lang of None \<Rightarrow> defaultLanguage s | Some l \<Rightarrow> l) in
        if language \<notin> set (SUPPORTED_LANGUAGES E) then (Inl LANGUAGE_NOT_SUPPORTED, s)
        else if \<not> checkInsertDocSchema s doc then (Inl INVALID_DOC_SCHEMA, s)
        else (case private_insert E s docID doc language of
                (Some e, s') \<Rightarrow> (Inl e, s')
              | (None, s') \<Rightarrow> (Inr docID, s')))"

subsection \<open>Search: the text fields and the filters\<close>

text \<open>
  The search parameters. \<open>properties\<close> is \<open>"*"\<close> (or, at run time, any string) or an
  array of names. \<open>limit\<close> and \<open>offset\<close> are numbers, of any kind.
\<close>

datatype properties = PropString string | PropArray "string list"

record search_params =
  "term" :: string
  properties :: "properties option"
  limit :: "jsnum option"
  offset :: "jsnum option"
  exact :: "bool option"
  tolerance :: "nat option"
  where_clause :: "jsval option"

definition getIndices :: "lyra \<Rightarrow> properties option \<Rightarrow> error + string list" where
  "getIndices s indices =
     (let knownIndices = map fst (index s) in
        case indices of
          None \<Rightarrow> Inr knownIndices
        | Some (PropString p) \<Rightarrow>
            if p = [] then Inr knownIndices
            else if p = ''*'' then Inr knownIndices
            else Inl INVALID_PROPERTY
        | Some (PropArray names) \<Rightarrow>
            if \<exists>name \<in> set names. name \<notin> set knownIndices then Inl INVALID_PROPERTY
            else Inr names)"

text \<open>\<open>!v\<close>: the values that count as false.\<close>

fun falsy :: "jsval \<Rightarrow> bool" where
  "falsy JNull = True"
| "falsy (JBool b) = (\<not> b)"
| "falsy (JStr s) = (s = [])"
| "falsy (JNum n) = (n = NaN \<or> num_eq n (Fin 0 0))"
| "falsy (JObj kvs) = False"

text \<open>
  The own enumerable properties of a value that is not \<open>null\<close>: those of an object, the
  characters of a string under their positions, none for a number or a boolean.
\<close>

fun entries :: "jsval \<Rightarrow> obj" where
  "entries (JObj kvs) = kvs"
| "entries (JStr s) = zip (map digits [0..<length s]) (map (\<lambda>c. JStr [c]) s)"
| "entries v = []"

text \<open>\<open>Object.keys(v)\<close>, a \<open>TypeError\<close> on \<open>null\<close>.\<close>

definition Object_keys :: "jsval \<Rightarrow> error + string list" where
  "Object_keys v = (if v = JNull then Inl TypeError else Inr (map fst (entries v)))"

definition allowedNumericComparison :: "string list" where
  "allowedNumericComparison = [''>='', ''>'', ''='', ''<'', ''<='']"

text \<open>
  The two inner functions of \<open>getNonSearchableIndices\<close>; each returns the name it pushes.
\<close>

definition handleBoolean :: "jsval \<Rightarrow> string \<Rightarrow> error + string" where
  "handleBoolean propValue propName =
     (case propValue of
        JBool b \<Rightarrow> Inr (propName @ ''_'' @ (if b then ''true'' else ''false''))
      | _ \<Rightarrow> Inl INVALID_QUERY_PARAMS)"

definition handleNumeric :: "jsval \<Rightarrow> string \<Rightarrow> error + string" where
  "handleNumeric propValue propName =
     (case Object_keys propValue of
        Inl e \<Rightarrow> Inl e
      | Inr numericKeys \<Rightarrow>
          if length numericKeys > 1 then Inl INVALID_QUERY_PARAMS
          else (case numericKeys of
                  [] \<Rightarrow> Inl INVALID_QUERY_PARAMS
                | key # _ \<Rightarrow>
                    if key \<notin> set allowedNumericComparison then Inl INVALID_QUERY_PARAMS
                    else (case map_of (entries propValue) key of
                            Some (JNum n) \<Rightarrow> Inr (propName @ ''.'' @ key @ ''.'' @ toString n)
                          | _ \<Rightarrow> Inl INVALID_QUERY_PARAMS)))"

lemma size_entry: "(k, v) \<in> set kvs \<Longrightarrow> size v < size (JObj kvs)"
  by (induction kvs) auto

lemma size_map_of: "map_of kvs k = Some v \<Longrightarrow> size v < size (JObj kvs)"
  by (rule size_entry) (erule map_of_SomeD)

text \<open>
  \<open>getNonSearchableIndices(where, schema, prefix)\<close>: \<open>where_keys\<close> is its loop over
  \<open>Object.keys(where)\<close>, with the two arrays built so far. The schema of a recursive call
  is a value of type \<open>"object"\<close>: an object, or \<open>null\<close> (here \<open>None\<close>), on which
  \<open>schema[key]\<close> is a \<open>TypeError\<close>. A key whose schema value is neither \<open>"boolean"\<close> nor
  \<open>"number"\<close> nor of type \<open>"object"\<close> falls through the chain of conditions.
\<close>

fun sub_schema :: "jsval \<Rightarrow> obj option" where
  "sub_schema (JObj kvs) = Some kvs"
| "sub_schema v = None"

definition schema_size :: "obj option \<Rightarrow> nat" where
  "schema_size sch = (case sch of None \<Rightarrow> 0 | Some kvs \<Rightarrow> size (JObj kvs))"

lemma sub_schema_size:
  "map_of sch key = Some v \<Longrightarrow> schema_size (sub_schema v) < schema_size (Some sch)"
  using size_map_of [of sch key v] by (cases v) (auto simp: schema_size_def)

function where_keys ::
  "obj \<Rightarrow> obj option \<Rightarrow> string \<Rightarrow> string list \<times> string list \<Rightarrow> error + string list \<times> string list" where
  "where_keys [] sch prefix acc = Inr acc"
| "where_keys ((key, propValue) # rest) None prefix acc = Inl TypeError"
| "where_keys ((key, propValue) # rest) (Some sch) prefix (boolIndices, numericIndices) =
     (let propName = prefix @ key in
        case map_of sch key of
          None \<Rightarrow> where_keys rest (Some sch) prefix (boolIndices, numericIndices)
        | Some schemaValue \<Rightarrow>
            if schemaValue = JStr ''boolean'' then
              (case handleBoolean propValue propName of
                 Inl e \<Rightarrow> Inl e
               | Inr name \<Rightarrow>
                   where_keys rest (Some sch) prefix (boolIndices @ [name], numericIndices))
            else if schemaValue = JStr ''number'' then
              (case handleNumeric propValue propName of
                 Inl e \<Rightarrow> Inl e
               | Inr name \<Rightarrow>
                   where_keys rest (Some sch) prefix (boolIndices, numericIndices @ [name]))
            else if typeof schemaValue = ''object'' then
              (case (if falsy propValue then Inr ([], [])
                     else where_keys (entries propValue) (sub_schema schemaValue)
                            (propName @ ''.'') ([], [])) of
                 Inl e \<Rightarrow> Inl e
               | Inr result \<Rightarrow>
                   where_keys rest (Some sch) prefix
                     (boolIndices @ fst result, numericIndices @ snd result))
            else where_keys rest (Some sch) prefix (boolIndices, numericIndices))"
  by pat_completeness auto
termination
  by (relation "measures [\<lambda>(es, sch, prefix, acc). schema_size sch,
                          \<lambda>(es, sch, prefix, acc). length es]")
     (auto dest: sub_schema_size)

definition getNonSearchableIndices ::
  "jsval option \<Rightarrow> obj option \<Rightarrow> string \<Rightarrow> error + string list \<times> string list" where
  "getNonSearchableIndices wh sch prefix =
     (case wh of
        None \<Rightarrow> Inr ([], [])
      | Some w \<Rightarrow> if falsy w then Inr ([], []) else where_keys (entries w) sch prefix ([], []))"

text \<open>\<open>createPredicateForNumericComparison(operator, valueSearched)\<close>.\<close>

definition createPredicateForNumericComparison :: "string option \<Rightarrow> jsnum \<Rightarrow> jsnum \<Rightarrow> bool" where
  "createPredicateForNumericComparison operator valueSearched =
     (if operator = Some ''<'' then (\<lambda>v. num_lt v valueSearched)
      else if operator = Some ''<='' then (\<lambda>v. num_le v valueSearched)
      else if operator = Some ''='' then (\<lambda>v. num_eq v valueSearched)
      else if operator = Some ''>'' then (\<lambda>v. num_lt valueSearched v)
      else if operator = Some ''>='' then (\<lambda>v. num_le valueSearched v)
      else (\<lambda>v. True))"

text \<open>
  \<open>getDocumentIDsFromWhere\<close>: the ids of the boolean lookups, the ids of the numeric
  lookups, and their intersection, where an empty list of lookups is no constraint.
\<close>

definition booleanIds_of :: "lyra \<Rightarrow> string list \<Rightarrow> string list" where
  "booleanIds_of s boolIndices =
     fold (\<lambda>boolIndex booleanIds.
             case map_of (booleanIndex s) boolIndex of
               None \<Rightarrow> booleanIds
             | Some ids \<Rightarrow> fold set_add ids booleanIds)
          boolIndices []"

definition numericIds_step :: "lyra \<Rightarrow> string \<Rightarrow> string list \<Rightarrow> string list" where
  "numericIds_step s virtualNumericIndex numericIds =
     (let rawIndex = js_split (CHR ''.'') virtualNumericIndex;
          numericIndexName = js_join ''.'' (take (length rawIndex - 2) rawIndex);
          operator = at_end rawIndex 2;
          valueSearched = Number (at_end rawIndex 1)
      in case map_of (numericIndex s) numericIndexName of
           None \<Rightarrow> numericIds
         | Some current \<Rightarrow>
             (let predicate = createPredicateForNumericComparison operator valueSearched;
                  keys = filter predicate (map fst current)
              in fold (\<lambda>range acc.
                         case num_get range current of
                           None \<Rightarrow> acc
                         | Some ids \<Rightarrow> fold set_add ids acc)
                      keys numericIds))"

definition getDocumentIDsFromWhere :: "lyra \<Rightarrow> string list \<Rightarrow> string list \<Rightarrow> string list option" where
  "getDocumentIDsFromWhere s boolIndices numericIndices =
     (let booleanIds = booleanIds_of s boolIndices;
          numericIds = fold (numericIds_step s) numericIndices [];
          needNumberIntersect = length numericIndices > 0;
          needBooleanIntersect = length boolIndices > 0
      in setIntersection (if needBooleanIntersect then Some booleanIds else None)
                         (if needNumberIntersect then Some numericIds else None))"

text \<open>
  The order in which \<open>for ... in\<close> visits the properties of an object that is built key
  by key: first the keys that are array indices (the decimal numbers below \<open>2^32 - 1\<close>,
  which is 4294967295, written without leading zeros), in ascending order, then the other keys in the order in
  which they were added.
\<close>

definition array_index :: "string \<Rightarrow> nat option" where
  "array_index key =
     (case parse_nat 0 key of
        None \<Rightarrow> None
      | Some n \<Rightarrow>
          if key \<noteq> [] \<and> digits n = key \<and> int n < 4294967295 then Some n else None)"

definition enumeration_order :: "(string \<times> 'a) list \<Rightarrow> (string \<times> 'a) list" where
  "enumeration_order kvs =
     sort_key (\<lambda>(key, v). case array_index key of None \<Rightarrow> 0 | Some n \<Rightarrow> n)
       (filter (\<lambda>(key, v). array_index key \<noteq> None) kvs) @
     filter (\<lambda>(key, v). array_index key = None) kvs"

definition getDocumentIDsFromSearch ::
  "lyra \<Rightarrow> string \<Rightarrow> string \<Rightarrow> bool \<Rightarrow> nat option \<Rightarrow> string list" where
  "getDocumentIDsFromSearch s indexName token ex tol =
     (case map_of (index s) indexName of
        None \<Rightarrow> []
      | Some idx \<Rightarrow>
          fold (\<lambda>(key, posting) ids. fold set_add posting ids)
            (enumeration_order (trie_find idx token ex tol)) [])"

subsection \<open>Search: the loops\<close>

text \<open>
  A hit is the object \<open>{id, ...fullDoc}\<close>: the property \<open>id\<close> with the generated id, and
  then the properties of the stored document, which replace the value of a property that
  is there already, \<open>id\<close> included. \<open>fullDoc\<close> is \<open>undefined\<close> (here \<open>None\<close>) when the
  document table has no such id, and spreading it adds nothing.
\<close>

type_synonym hit = obj

definition hit_object :: "string \<Rightarrow> obj option \<Rightarrow> hit" where
  "hit_object docID fullDoc =
     (case fullDoc of
        None \<Rightarrow> [(''id'', JStr docID)]
      | Some doc \<Rightarrow> fold (\<lambda>(key, v) h. map_set key v h) doc [(''id'', JStr docID)])"

text \<open>
  \<open>Array.from({length: limit})\<close>: the length is the number truncated to an integer, 0
  for \<open>NaN\<close> and for a negative number, and an array of more than \<open>2^32 - 1\<close> elements
  (4294967295) is a \<open>RangeError\<close>. Every slot holds \<open>undefined\<close> (here \<open>None\<close>).
\<close>

fun array_length :: "jsnum \<Rightarrow> error + nat" where
  "array_length NaN = Inr 0"
| "array_length NegInf = Inr 0"
| "array_length PosInf = Inl RangeError"
| "array_length (Fin m k) =
     (let len = (if m < 0 then 0 else m div 10 ^ k) in
        if len > 4294967295 then Inl RangeError else Inr (nat len))"

text \<open>
  \<open>xs[i] = v\<close>: inside the array the slot is replaced; past its end the array grows to
  the length \<open>i + 1\<close>, and the slots in between hold nothing.
\<close>

definition array_set :: "'a option list \<Rightarrow> nat \<Rightarrow> 'a \<Rightarrow> 'a option list" where
  "array_set xs i v =
     (if i < length xs then xs[i := Some v]
      else xs @ replicate (i - length xs) None @ [Some v])"

text \<open>The elapsed time is not modelled.\<close>

record search_result =
  hits :: "hit option list"
  count :: nat

text \<open>The variables of the loops of \<open>search\<close>; \<open>pos_i\<close> and \<open>pos_j\<close> are \<open>i\<close> and \<open>j\<close>.\<close>

record loop_state =
  documentAdded :: "string list"
  results :: "hit option list"
  totalResults :: nat
  pos_i :: nat
  pos_j :: nat

text \<open>
  The innermost loop, over the ids of one set. The counters are compared with \<open>offset\<close>
  and \<open>limit\<close> as numbers: \<open>j < offset\<close> and \<open>i >= limit\<close>.
\<close>

fun emit_ids :: "lyra \<Rightarrow> jsnum \<Rightarrow> jsnum \<Rightarrow> string list \<Rightarrow> loop_state \<Rightarrow> loop_state" where
  "emit_ids s lim off [] L = L"
| "emit_ids s lim off (docID # ids) L =
     (if num_lt (Fin (int (pos_j L)) 0) off then emit_ids s lim off ids (L\<lparr>pos_j := pos_j L + 1\<rparr>)
      else if num_le lim (Fin (int (pos_i L)) 0) then L
      else emit_ids s lim off ids
             (L\<lparr>documentAdded := set_add docID (documentAdded L),
                results := array_set (results L) (pos_i L)
                             (hit_object docID (map_of (docs s) docID)),
                pos_i := pos_i L + 1\<rparr>))"

text \<open>The loop over the text fields, for one token; \<open>break\<close> leaves it.\<close>

fun index_loop ::
  "lyra \<Rightarrow> search_params \<Rightarrow> jsnum \<Rightarrow> jsnum \<Rightarrow> bool \<Rightarrow> string list option \<Rightarrow> string \<Rightarrow>
   string list \<Rightarrow> loop_state \<Rightarrow> loop_state" where
  "index_loop s params lim off ex nonSearchable token [] L = L"
| "index_loop s params lim off ex nonSearchable token (indexName # rest) L =
     (let found = getDocumentIDsFromSearch s indexName token ex (tolerance params);
          documentIDs =
            setSubtraction
              (case setIntersection (Some found) nonSearchable of Some ids \<Rightarrow> ids | None \<Rightarrow> [])
              (documentAdded L)
      in if length documentIDs = 0 then index_loop s params lim off ex nonSearchable token rest L
         else (let L' = L\<lparr>totalResults := totalResults L + length documentIDs\<rparr> in
                 if num_le lim (Fin (int (pos_i L')) 0) then L'
                 else index_loop s params lim off ex nonSearchable token rest
                        (emit_ids s lim off documentIDs L')))"

definition token_loop ::
  "lyra \<Rightarrow> search_params \<Rightarrow> jsnum \<Rightarrow> jsnum \<Rightarrow> bool \<Rightarrow> string list option \<Rightarrow> string list \<Rightarrow>
   string list \<Rightarrow> loop_state \<Rightarrow> loop_state" where
  "token_loop s params lim off ex nonSearchable indices tokens L =
     fold (\<lambda>token. index_loop s params lim off ex nonSearchable token indices) tokens L"

text \<open>\<open>search(params, language)\<close>.\<close>

definition search :: "env \<Rightarrow> lyra \<Rightarrow> search_params \<Rightarrow> string option \<Rightarrow> error + search_result" where
  "search E s params lang =
     (let language = (case lang of None \<Rightarrow> defaultLanguage s | Some l \<Rightarrow> l) in
        case tokenize E (term params) language of
          Inl e \<Rightarrow> Inl e
        | Inr tokens \<Rightarrow>
            (case getIndices s (properties params) of
               Inl e \<Rightarrow> Inl e
             | Inr indices \<Rightarrow>
                 (case getNonSearchableIndices (where_clause params) (Some (schema s)) [] of
                    Inl e \<Rightarrow> Inl e
                  | Inr (boolIndices, numericIndices) \<Rightarrow>
                      (let lim = (case limit params of None \<Rightarrow> Fin 10 0 | Some n \<Rightarrow> n);
                           off = (case offset params of None \<Rightarrow> Fin 0 0 | Some n \<Rightarrow> n);
                           ex = (case exact params of None \<Rightarrow> False | Some b \<Rightarrow> b)
                       in case array_length lim of
                            Inl e \<Rightarrow> Inl e
                          | Inr len \<Rightarrow>
                              (let L0 = \<lparr>documentAdded = [], results = replicate len None,
                                         totalResults = 0, pos_i = 0, pos_j = 0\<rparr>;
                                   documentIdsFromNonSearchable =
                                     getDocumentIDsFromWhere s boolIndices numericIndices;
                                   L = token_loop s params lim off ex
                                         documentIdsFromNonSearchable indices tokens L0
                               in Inr \<lparr>hits = results L, count = totalResults L\<rparr>)))))"

subsection \<open>Deletion\<close>

text \<open>
  The loop of \<open>delete\<close> over the tokens of one value. \<open>idx\<close> is \<open>undefined\<close> (here
  \<open>None\<close>) when no text index has the name of the key, and calling a method on it is a
  \<open>TypeError\<close>. The trie is changed in place, so a failure leaves it as it is then.
\<close>

fun remove_tokens :: "string \<Rightarrow> string list \<Rightarrow> trie option \<Rightarrow> error option \<times> trie option" where
  "remove_tokens docID [] idx = (None, idx)"
| "remove_tokens docID (token # rest) None = (Some TypeError, None)"
| "remove_tokens docID (token # rest) (Some t) =
     (case removeDocByWord token docID t of
        (failed, t') \<Rightarrow>
          if failed then (Some UNABLE_TO_REMOVE, Some t')
          else remove_tokens docID rest (Some t'))"

text \<open>
  The loop \<open>for (const key in document)\<close>: the keys of the document itself, not the flat
  paths, and the tokenizer without a language.
\<close>

fun delete_keys :: "env \<Rightarrow> string \<Rightarrow> obj \<Rightarrow> lyra \<Rightarrow> error option \<times> lyra" where
  "delete_keys E docID [] s = (None, s)"
| "delete_keys E docID ((key, v) # rest) s =
     (let idx = map_of (index s) key in
        case (case v of
                JStr text \<Rightarrow> tokenize E text (tokenizer_language E)
              | _ \<Rightarrow> tokenize_other E v) of
          Inl e \<Rightarrow> (Some e, s)
        | Inr tokens \<Rightarrow>
            (case remove_tokens docID tokens idx of
               (err, idx') \<Rightarrow>
                 (let s' = (case idx' of
                              None \<Rightarrow> s
                            | Some t \<Rightarrow> s\<lparr>index := map_set key t (index s)\<rparr>)
                  in case err of
                       Some e \<Rightarrow> (Some e, s')
                     | None \<Rightarrow> delete_keys E docID rest s')))"

text \<open>\<open>delete(docID)\<close>, with the state the call leaves behind.\<close>

definition delete :: "env \<Rightarrow> lyra \<Rightarrow> string \<Rightarrow> (error + bool) \<times> lyra" where
  "delete E s docID =
     (case map_of (docs s) docID of
        None \<Rightarrow> (Inl DOC_ID_DOES_NOT_EXISTS, s)
      | Some document \<Rightarrow>
          (case delete_keys E docID document s of
             (Some e, s') \<Rightarrow> (Inl e, s')
           | (None, s') \<Rightarrow> (Inr True, s'\<lparr>docs := map_delete docID (docs s')\<rparr>)))"

section \<open>An engine to compute with\<close>

text \<open>
  A tokenizer that lower-cases a text and splits it at the spaces, for English only, and
  that fails on a value that is not a string. The schema and the two documents are those
  of the first scenario of the specification.
\<close>

definition demo_env :: env where
  "demo_env =
     \<lparr>SUPPORTED_LANGUAGES = [''english''],
      token_set = (\<lambda>text language.
                     remdups (filter (\<lambda>w. w \<noteq> []) (js_split (CHR '' '') (toLowerCase text)))),
      tokenizer_language = ''english'',
      tokenize_other = (\<lambda>v. Inl TypeError)\<rparr>"

definition demo_schema :: obj where
  "demo_schema =
     [(''title'', JStr ''string''), (''year'', JStr ''number''), (''inStock'', JStr ''boolean'')]"

definition demo_engine :: lyra where
  "demo_engine =
     \<lparr>defaultLanguage = ''english'', schema = demo_schema, docs = [],
      index = [(''title'', [])],
      numericIndex = [(''year'', [])],
      booleanIndex = [(''inStock_true'', []), (''inStock_false'', [])]\<rparr>"

definition book_A :: obj where
  "book_A =
     [(''title'', JStr ''The Lyra Book''), (''year'', JNum (Fin 2022 0)), (''inStock'', JBool True)]"

definition book_B :: obj where
  "book_B =
     [(''title'', JStr ''Lyra Cookbook''), (''year'', JNum (Fin 2019 0)), (''inStock'', JBool False)]"

definition one_book :: lyra where
  "one_book =
     \<lparr>defaultLanguage = ''english'', schema = demo_schema,
      docs = [(''A'', book_A)],
      index = [(''title'', [(''the'', [''A'']), (''lyra'', [''A'']), (''book'', [''A''])])],
      numericIndex = [(''year'', [(Fin 2022 0, [''A''])])],
      booleanIndex = [(''inStock_true'', [''A'']), (''inStock_false'', [])]\<rparr>"

definition two_books :: lyra where
  "two_books =
     \<lparr>defaultLanguage = ''english'', schema = demo_schema,
      docs = [(''A'', book_A), (''B'', book_B)],
      index =
        [(''title'',
          [(''the'', [''A'']), (''lyra'', [''A'', ''B'']), (''book'', [''A'']),
           (''cookbook'', [''B''])])],
      numericIndex = [(''year'', [(Fin 2022 0, [''A'']), (Fin 2019 0, [''B''])])],
      booleanIndex = [(''inStock_true'', [''A'']), (''inStock_false'', [''B''])]\<rparr>"

definition lyra_query :: search_params where
  "lyra_query =
     \<lparr>term = ''lyra'', properties = None, limit = None, offset = None, exact = None,
      tolerance = None, where_clause = None\<rparr>"

text \<open>A schema with a nested object, and a document that does not conform to it.\<close>

definition nested_schema :: obj where
  "nested_schema =
     [(''title'', JStr ''string''), (''author'', JObj [(''name'', JStr ''string'')])]"

definition nested_engine :: lyra where
  "nested_engine =
     \<lparr>defaultLanguage = ''english'', schema = nested_schema, docs = [],
      index = [(''title'', []), (''author.name'', [])], numericIndex = [], booleanIndex = []\<rparr>"

definition bad_doc :: obj where
  "bad_doc =
     [(''title'', JStr ''x''),
      (''author'', JObj [(''name'', JNum (Fin 42 0)), (''nickname'', JBool True)])]"

text \<open>A schema with a price, and a pen that costs 1.5.\<close>

definition shop_schema :: obj where
  "shop_schema = [(''name'', JStr ''string''), (''price'', JStr ''number'')]"

definition shop_engine :: lyra where
  "shop_engine =
     \<lparr>defaultLanguage = ''english'', schema = shop_schema, docs = [],
      index = [(''name'', [])], numericIndex = [(''price'', [])], booleanIndex = []\<rparr>"

definition pen :: obj where
  "pen = [(''name'', JStr ''pen''), (''price'', JNum (Fin 15 1))]"

definition shop_with_pen :: lyra where
  "shop_with_pen =
     \<lparr>defaultLanguage = ''english'', schema = shop_schema, docs = [(''A'', pen)],
      index = [(''name'', [(''pen'', [''A''])])],
      numericIndex = [(''price'', [(Fin 15 1, [''A''])])], booleanIndex = []\<rparr>"

definition price_query :: "string \<Rightarrow> jsnum \<Rightarrow> search_params" where
  "price_query op v =
     \<lparr>term = ''pen'', properties = None, limit = None, offset = None, exact = None,
      tolerance = None, where_clause = Some (JObj [(''price'', JObj [(op, JNum v)])])\<rparr>"

text \<open>
  The same tokenizer, returning no tokens for a value that is not a string, and a
  document with a nested text leaf.
\<close>

definition lenient_env :: env where
  "lenient_env = demo_env\<lparr>tokenize_other := (\<lambda>v. Inr [])\<rparr>"

definition john_doc :: obj where
  "john_doc = [(''title'', JStr ''lyra''), (''author'', JObj [(''name'', JStr ''john'')])]"

definition nested_with_john :: lyra where
  "nested_with_john =
     \<lparr>defaultLanguage = ''english'', schema = nested_schema, docs = [(''A'', john_doc)],
      index = [(''title'', [(''lyra'', [''A''])]), (''author.name'', [(''john'', [''A''])])],
      numericIndex = [], booleanIndex = []\<rparr>"

section \<open>What the hits of a search hold\<close>

text \<open>The \<open>id\<close> property of every hit, in order; an empty slot has none.\<close>

definition hit_ids :: "hit option list \<Rightarrow> jsval option list" where
  "hit_ids hs = concat (map (\<lambda>h. case h of None \<Rightarrow> [] | Some ob \<Rightarrow> [map_of ob ''id'']) hs)"



text \<open>A schema with a text field \<open>id\<close>, and two documents, the second with an \<open>id\<close>.\<close>

definition id_schema :: obj where
  "id_schema = [(''id'', JStr ''string''), (''title'', JStr ''string'')]"

definition id_engine :: lyra where
  "id_engine =
     \<lparr>defaultLanguage = ''english'', schema = id_schema, docs = [],
      index = [(''id'', []), (''title'', [])], numericIndex = [], booleanIndex = []\<rparr>"

definition lyra_one :: obj where
  "lyra_one = [(''title'', JStr ''lyra one'')]"

definition lyra_two :: obj where
  "lyra_two = [(''id'', JStr ''A''), (''title'', JStr ''lyra two'')]"

definition id_engine_one :: lyra where
  "id_engine_one =
     \<lparr>defaultLanguage = ''english'', schema = id_schema, docs = [(''A'', lyra_one)],
      index = [(''id'', []), (''title'', [(''lyra'', [''A'']), (''one'', [''A''])])],
      numericIndex = [], booleanIndex = []\<rparr>"

definition id_engine_two :: lyra where
  "id_engine_two =
     \<lparr>defaultLanguage = ''english'', schema = id_schema,
      docs = [(''A'', lyra_one), (''B'', lyra_two)],
      index = [(''id'', [(''a'', [''B''])]),
               (''title'', [(''lyra'', [''A'', ''B'']), (''one'', [''A'']), (''two'', [''B''])])],
      numericIndex = [], booleanIndex = []\<rparr>"

section \<open>The leaves of a schema\<close>

text \<open>
  The flat paths of the leaves of a schema that are declared with a given type, below a
  prefix: the names from the root to the leaf, joined by dots.
\<close>

fun leaf_paths :: "string \<Rightarrow> obj \<Rightarrow> string \<Rightarrow> string list" where
  "leaf_paths ty [] prefix = []"
| "leaf_paths ty ((prop, JObj kvs) # rest) prefix =
     leaf_paths ty kvs (prefix @ prop @ ''.'') @ leaf_paths ty rest prefix"
| "leaf_paths ty ((prop, v) # rest) prefix =
     (if v = JStr ty then [prefix @ prop] else []) @ leaf_paths ty rest prefix"

text \<open>An object that holds no \<open>null\<close>, at any depth.\<close>

fun no_null :: "obj \<Rightarrow> bool" where
  "no_null [] = True"
| "no_null ((prop, JNull) # rest) = False"
| "no_null ((prop, JObj kvs) # rest) = (no_null kvs \<and> no_null rest)"
| "no_null ((prop, v) # rest) = no_null rest"

text \<open>
  The names of the two sets that the boolean index holds for each path, and what it means
  for the three indices to be freshly built: no name twice, every index empty.
\<close>

definition boolean_names :: "string list \<Rightarrow> string set" where
  "boolean_names ps = (\<Union>p \<in> set ps. {p @ ''_true'', p @ ''_false''})"

definition fresh_indices :: "lyra \<Rightarrow> bool" where
  "fresh_indices s =
     (distinct (map fst (index s)) \<and> snd ` set (index s) \<subseteq> {[]} \<and>
      distinct (map fst (numericIndex s)) \<and> snd ` set (numericIndex s) \<subseteq> {[]} \<and>
      distinct (map fst (booleanIndex s)) \<and> snd ` set (booleanIndex s) \<subseteq> {[]})"

section \<open>What a \<open>where\<close> clause may not do\<close>



section \<open>What a numeric filter is to admit\<close>

text \<open>\<open>x op v\<close> for the five comparison operators.\<close>

definition compare_num :: "string \<Rightarrow> jsnum \<Rightarrow> jsnum \<Rightarrow> bool" where
  "compare_num op x v =
     (if op = ''<'' then num_lt x v
      else if op = ''<='' then num_le x v
      else if op = ''='' then num_eq x v
      else if op = ''>'' then num_lt v x
      else if op = ''>='' then num_le v x
      else False)"

section \<open>Properties\<close>

lemma new_Lyra_demo: "new_Lyra demo_env demo_schema None = Inr demo_engine"
  by (simp add: new_Lyra_def demo_env_def demo_schema_def demo_engine_def typeof_key_def)

subsection \<open>A failed insertion\<close>

lemma recursiveTrieInsertion_error:
  "recursiveTrieInsertion E docID language doc prefix s = (Some e, s') \<Longrightarrow>
   language \<in> set (SUPPORTED_LANGUAGES E) \<Longrightarrow> e = TypeError"
  by (induction E docID language doc prefix s rule: recursiveTrieInsertion.induct)
     (auto simp: tokenize_def Let_def split: prod.splits option.splits if_splits)

text \<open>
  Claim C9. If \<open>insert\<close> throws \<open>LanguageNotSupported\<close> or \<open>InvalidDocSchema\<close>, the
  engine state is unchanged: the document table and every text, boolean and numeric index
  are the same as before the call.
\<close>

theorem insert_failure_leaves_state:
  "fst (insert_doc E s docID doc lang) = Inl e \<Longrightarrow>
   e = LANGUAGE_NOT_SUPPORTED \<or> e = INVALID_DOC_SCHEMA \<Longrightarrow>
   snd (insert_doc E s docID doc lang) = s"
  by (auto simp: insert_doc_def private_insert_def Let_def
           split: if_splits prod.splits option.splits dest: recursiveTrieInsertion_error)

theorem insert_failure_leaves_state_witness:
  "fst (insert_doc demo_env demo_engine ''A'' book_A (Some ''klingon'')) = Inl LANGUAGE_NOT_SUPPORTED \<and>
   snd (insert_doc demo_env demo_engine ''A'' book_A (Some ''klingon'')) = demo_engine \<and>
   fst (insert_doc demo_env demo_engine ''A'' [(''title'', JNum (Fin 42 0))] None) = Inl INVALID_DOC_SCHEMA \<and>
   snd (insert_doc demo_env demo_engine ''A'' [(''title'', JNum (Fin 42 0))] None) = demo_engine"
proof -
  have l: "fst (insert_doc demo_env demo_engine ''A'' book_A (Some ''klingon'')) = Inl LANGUAGE_NOT_SUPPORTED"
    by (simp add: insert_doc_def demo_env_def)
  have d: "fst (insert_doc demo_env demo_engine ''A'' [(''title'', JNum (Fin 42 0))] None) = Inl INVALID_DOC_SCHEMA"
    by (simp add: insert_doc_def demo_env_def demo_engine_def demo_schema_def checkInsertDocSchema_def)
  show ?thesis
    using l d insert_failure_leaves_state [OF l] insert_failure_leaves_state [OF d] by simp
qed

subsection \<open>A failure of \<open>insert\<close> after the checks\<close>

text \<open>
  A \<open>null\<close> passes the schema check, as a value of type \<open>"object"\<close> with no keys, and
  makes the worker fail with a \<open>TypeError\<close> after it has stored the document.
\<close>

lemma insert_null_throws:
  "insert_doc demo_env demo_engine ''A'' [(''title'', JNull)] None =
     (Inl TypeError, demo_engine\<lparr>docs := [(''A'', [(''title'', JNull)])]\<rparr>)"
  by code_simp

subsection \<open>The two books\<close>

lemma insert_one_book: "insert_doc demo_env demo_engine ''A'' book_A None = (Inr ''A'', one_book)"
  by code_simp

lemma insert_two_books: "insert_doc demo_env one_book ''B'' book_B None = (Inr ''B'', two_books)"
  by code_simp

subsection \<open>The two documents with and without a field \<open>id\<close>\<close>

lemma new_Lyra_id: "new_Lyra demo_env id_schema None = Inr id_engine"
  by code_simp

lemma insert_lyra_one:
  "insert_doc demo_env id_engine ''A'' lyra_one None = (Inr ''A'', id_engine_one)"
  by code_simp

lemma insert_lyra_two:
  "insert_doc demo_env id_engine_one ''B'' lyra_two None = (Inr ''B'', id_engine_two)"
  by code_simp

subsection \<open>The hits of a search\<close>







lemma set_set_add [simp]: "set (set_add x xs) = insert x (set xs)"
  by (auto simp: set_add_def)

lemma distinct_set_add [simp]: "distinct (set_add x xs) = distinct xs"
  by (auto simp: set_add_def)














subsection \<open>A search term without tokens\<close>

lemma hit_ids_replicate: "hit_ids (replicate n None) = []"
  by (induction n) (auto simp: hit_ids_def)

text \<open>
  Claim C10 says that for any properties and \<open>where\<close> clause a search whose term yields
  no tokens returns count 0. The term of two spaces yields no tokens, and with the
  properties \<open>["year"]\<close>, which is no text field, the search fails with
  \<open>InvalidProperty\<close>.
\<close>

theorem search_without_tokens_counterexample:
  "tokenize demo_env ''  '' ''english'' = Inr [] \<and>
   search demo_env two_books
     (lyra_query\<lparr>term := ''  '', properties := Some (PropArray [''year''])\<rparr>) None =
   Inl INVALID_PROPERTY"
  by code_simp

text \<open>
  Claim C10, amended. If tokenizing the search term yields no tokens, \<open>search\<close> fails
  with the error of \<open>properties\<close>, else with the error of the \<open>where\<close> clause, else with
  the \<open>RangeError\<close> of a limit that is too large for an array, whichever comes first;
  if none of the three fails it returns count 0 and hits that are empty slots only. So
  whenever it returns, the count is 0 and no document id appears among the hits.
\<close>

theorem search_without_tokens:
  assumes "tokenize E (term params) (case lang of None \<Rightarrow> defaultLanguage s | Some l \<Rightarrow> l) = Inr []"
  shows "search E s params lang =
           (case getIndices s (properties params) of
              Inl e \<Rightarrow> Inl e
            | Inr indices \<Rightarrow>
                (case getNonSearchableIndices (where_clause params) (Some (schema s)) [] of
                   Inl e \<Rightarrow> Inl e
                 | Inr w \<Rightarrow>
                     (case array_length (case limit params of None \<Rightarrow> Fin 10 0 | Some l \<Rightarrow> l) of
                        Inl e \<Rightarrow> Inl e
                      | Inr len \<Rightarrow> Inr \<lparr>hits = replicate len None, count = 0\<rparr>))) \<and>
         (\<forall>r. search E s params lang = Inr r \<longrightarrow>
              count r = 0 \<and> hit_ids (hits r) = [] \<and> set (hits r) \<subseteq> {None})"
proof -
  have eq: "search E s params lang =
           (case getIndices s (properties params) of
              Inl e \<Rightarrow> Inl e
            | Inr indices \<Rightarrow>
                (case getNonSearchableIndices (where_clause params) (Some (schema s)) [] of
                   Inl e \<Rightarrow> Inl e
                 | Inr w \<Rightarrow>
                     (case array_length (case limit params of None \<Rightarrow> Fin 10 0 | Some l \<Rightarrow> l) of
                        Inl e \<Rightarrow> Inl e
                      | Inr len \<Rightarrow> Inr \<lparr>hits = replicate len None, count = 0\<rparr>)))"
    using assms
    by (simp add: search_def Let_def token_loop_def split: sum.splits prod.splits)
  have "count r = 0 \<and> hit_ids (hits r) = [] \<and> set (hits r) \<subseteq> {None}"
    if "search E s params lang = Inr r" for r
    using that unfolding eq by (auto simp: hit_ids_replicate split: sum.splits)
  with eq show ?thesis by blast
qed

theorem search_without_tokens_witness:
  "tokenize demo_env (term (lyra_query\<lparr>term := ''  ''\<rparr>)) (defaultLanguage two_books) = Inr [] \<and>
   search demo_env two_books (lyra_query\<lparr>term := ''  ''\<rparr>) None =
     Inr \<lparr>hits = replicate 10 None, count = 0\<rparr> \<and>
   count \<lparr>hits = replicate 10 None, count = 0\<rparr> = 0 \<and>
   hit_ids (hits \<lparr>hits = replicate 10 None, count = 0\<rparr>) = []"
proof -
  have t: "tokenize demo_env (term (lyra_query\<lparr>term := ''  ''\<rparr>))
             (case None of None \<Rightarrow> defaultLanguage two_books | Some l \<Rightarrow> l) = Inr []"
    by code_simp
  have r: "search demo_env two_books (lyra_query\<lparr>term := ''  ''\<rparr>) None =
             Inr \<lparr>hits = replicate 10 None, count = 0\<rparr>"
    by code_simp
  from search_without_tokens [OF t]
  have "\<forall>r. search demo_env two_books (lyra_query\<lparr>term := ''  ''\<rparr>) None = Inr r \<longrightarrow>
            count r = 0 \<and> hit_ids (hits r) = [] \<and> set (hits r) \<subseteq> {None}"
    by blast
  with t r show ?thesis by simp
qed


subsection \<open>The example engines are what the constructor and \<open>insert\<close> build\<close>

lemma new_Lyra_nested: "new_Lyra demo_env nested_schema None = Inr nested_engine"
  by code_simp

lemma new_Lyra_shop: "new_Lyra demo_env shop_schema None = Inr shop_engine"
  by code_simp

lemma insert_pen: "insert_doc demo_env shop_engine ''A'' pen None = (Inr ''A'', shop_with_pen)"
  by code_simp

lemma insert_john:
  "insert_doc lenient_env nested_engine ''A'' john_doc None = (Inr ''A'', nested_with_john)"
  by code_simp

subsection \<open>The schema check of \<open>insert\<close>\<close>

text \<open>
  Claim C2 says that \<open>insert\<close> fails with \<open>InvalidDocSchema\<close> exactly when the document
  violates the schema, at any depth. On the schema \<open>{title: "string", author: {name:
  "string"}}\<close> the document \<open>{title: "x", author: {name: 42, nickname: true}}\<close> has a
  number where the schema has a text and a key that the schema does not have, both inside
  the nested object. \<open>insert\<close> accepts it: it returns the id, stores the document and
  indexes its title.
\<close>

theorem insert_accepts_nested_mismatch:
  "insert_doc demo_env nested_engine ''A'' bad_doc None =
     (Inr ''A'',
      nested_engine\<lparr>docs := [(''A'', bad_doc)],
                     index := [(''title'', [(''x'', [''A''])]), (''author.name'', [])]\<rparr>)"
  by code_simp

subsection \<open>Numbers that are not finite\<close>

text \<open>
  Claim C6 says that \<open>insert\<close> rejects every document with a numeric leaf that is not
  finite. It does not: \<open>{year: NaN}\<close> is accepted, and \<open>NaN\<close> becomes a key of the
  numeric index.
\<close>

theorem insert_rejects_non_finite_counterexample:
  "insert_doc demo_env demo_engine ''A'' [(''year'', JNum NaN)] None =
     (Inr ''A'',
      demo_engine\<lparr>docs := [(''A'', [(''year'', JNum NaN)])],
                   numericIndex := [(''year'', [(NaN, [''A''])])]\<rparr>)"
  by code_simp

lemma map_of_map_set [simp]: "map_of (map_set k v m) k = Some v"
  by (induction m) auto

lemma same_key_refl [simp]: "same_key v v"
  by (cases v) (auto simp: same_key_def)

lemma num_get_num_set [simp]: "num_get v (num_set v ids m) = Some ids"
  by (induction m) auto

lemma recursiveCheck_cons:
  "recursiveCheck ((key, v) # rest) sch =
     (key_in key sch \<and> (typeof v = ''object'' \<or> map_of sch key = Some (JStr (typeof v))) \<and>
      recursiveCheck rest sch)"
  by (cases v) (auto simp: Let_def)

lemma recursiveCheck_number_blind:
  "recursiveCheck (pre @ (key, JNum v) # post) sch = recursiveCheck (pre @ (key, JNum v') # post) sch"
  by (induction pre) (auto simp: recursiveCheck_cons simp del: recursiveCheck.simps)

text \<open>
  Claim C6, amended. \<open>insert\<close> does not test whether a number is finite: the schema check
  gives the same verdict whatever number stands at a leaf. For a supported language, a
  document \<open>{key: v}\<close> whose key is a number leaf of the schema is accepted for every
  number \<open>v\<close>, \<open>NaN\<close> and the infinities included, and its id is stored in the numeric
  index of the key under \<open>v\<close>.
\<close>

theorem insert_accepts_any_number:
  "checkInsertDocSchema s (pre @ (key, JNum v) # post) =
     checkInsertDocSchema s (pre @ (key, JNum v') # post) \<and>
   ((case lang of None \<Rightarrow> defaultLanguage s | Some l \<Rightarrow> l) \<in> set (SUPPORTED_LANGUAGES E) \<and>
    map_of (schema s) key = Some (JStr ''number'') \<and>
    map_of (numericIndex s) key = Some numericMap \<longrightarrow>
      fst (insert_doc E s docID [(key, JNum v)] lang) = Inr docID \<and>
      (\<exists>m ids. map_of (numericIndex (snd (insert_doc E s docID [(key, JNum v)] lang))) key = Some m \<and>
                num_get v m = Some ids \<and> docID \<in> set ids))"
proof -
  have a: "checkInsertDocSchema s (pre @ (key, JNum v) # post) =
           checkInsertDocSchema s (pre @ (key, JNum v') # post)"
    unfolding checkInsertDocSchema_def by (rule recursiveCheck_number_blind)
  have b: "fst (insert_doc E s docID [(key, JNum v)] lang) = Inr docID \<and>
      (\<exists>m ids. map_of (numericIndex (snd (insert_doc E s docID [(key, JNum v)] lang))) key = Some m \<and>
                num_get v m = Some ids \<and> docID \<in> set ids)"
    if l: "(case lang of None \<Rightarrow> defaultLanguage s | Some l \<Rightarrow> l) \<in> set (SUPPORTED_LANGUAGES E)"
      and k: "map_of (schema s) key = Some (JStr ''number'')"
      and n: "map_of (numericIndex s) key = Some numericMap"
  proof -
    have "key_in key (schema s)"
      using k by (auto simp: key_in_def dest: map_of_SomeD intro: rev_image_eqI)
    then have ok: "checkInsertDocSchema s [(key, JNum v)]"
      using k by (simp add: checkInsertDocSchema_def)
    show ?thesis
      using l n ok
      by (auto simp: insert_doc_def private_insert_def Let_def split: option.splits)
  qed
  from a b show ?thesis by blast
qed

theorem insert_accepts_any_number_witness:
  "defaultLanguage demo_engine \<in> set (SUPPORTED_LANGUAGES demo_env) \<and>
   map_of (schema demo_engine) ''year'' = Some (JStr ''number'') \<and>
   map_of (numericIndex demo_engine) ''year'' = Some [] \<and>
   fst (insert_doc demo_env demo_engine ''A'' [(''year'', JNum PosInf)] None) = Inr ''A'' \<and>
   (\<exists>m ids. map_of (numericIndex (snd (insert_doc demo_env demo_engine ''A''
                                          [(''year'', JNum PosInf)] None))) ''year'' = Some m \<and>
             num_get PosInf m = Some ids \<and> ''A'' \<in> set ids)"
proof -
  have l: "(case None of None \<Rightarrow> defaultLanguage demo_engine | Some l \<Rightarrow> l)
             \<in> set (SUPPORTED_LANGUAGES demo_env)"
    by (simp add: demo_engine_def demo_env_def)
  have k: "map_of (schema demo_engine) ''year'' = Some (JStr ''number'')"
    by (simp add: demo_engine_def demo_schema_def)
  have n: "map_of (numericIndex demo_engine) ''year'' = Some []"
    by (simp add: demo_engine_def)
  from l k n
    insert_accepts_any_number [where s = demo_engine and E = demo_env and lang = None
      and key = "''year''" and numericMap = "[]" and docID = "''A''" and v = PosInf]
  have "fst (insert_doc demo_env demo_engine ''A'' [(''year'', JNum PosInf)] None) = Inr ''A'' \<and>
   (\<exists>m ids. map_of (numericIndex (snd (insert_doc demo_env demo_engine ''A''
                                          [(''year'', JNum PosInf)] None))) ''year'' = Some m \<and>
             num_get PosInf m = Some ids \<and> ''A'' \<in> set ids)"
    by blast
  with l k n show ?thesis by simp
qed

subsection \<open>A numeric filter with a decimal target\<close>

text \<open>
  Claim C3 says that a \<open>where\<close> clause \<open>{path: {op: v}}\<close> admits a document with the
  number \<open>x\<close> at the path if and only if \<open>x op v\<close>, for every target \<open>v\<close>, integer or not.
  The pen costs 1.5, and \<open>1.5 <= 2.5\<close>. The clause \<open>{price: {"<=": 2.5}}\<close> is encoded as
  \<open>price.<=.2.5\<close> and split at every dot, so the name looked up is \<open>price.<=\<close>, which is
  no index: the filter admits no document and the search for the pen has no hit. With the
  target 3 the same search finds the pen.
\<close>

theorem numeric_filter_decimal_target:
  "num_le (Fin 15 1) (Fin 25 1) \<and>
   getNonSearchableIndices (where_clause (price_query ''<='' (Fin 25 1))) (Some shop_schema) [] =
     Inr ([], [''price.<=.2.5'']) \<and>
   getDocumentIDsFromWhere shop_with_pen [] [''price.<=.2.5''] = Some [] \<and>
   search demo_env shop_with_pen (price_query ''<='' (Fin 25 1)) None =
     Inr \<lparr>hits = replicate 10 None, count = 0\<rparr> \<and>
   search demo_env shop_with_pen (price_query ''<='' (Fin 3 0)) None =
     Inr \<lparr>hits = Some ((''id'', JStr ''A'') # pen) # replicate 9 None, count = 1\<rparr>"
  by code_simp

subsection \<open>A numeric filter with an integer target\<close>

text \<open>
  The decimal digits of a natural number are read back as that number, and a string that
  is split at a separator and joined again is the string.
\<close>

lemma digit_of_digit_char: "d < 10 \<Longrightarrow> digit_of (digit_char d) = Some d"
proof -
  have "\<forall>d \<in> set [0..<10]. digit_of (digit_char d) = Some d"
    by code_simp
  then show "d < 10 \<Longrightarrow> digit_of (digit_char d) = Some d" by simp
qed

lemma digit_char_is_digit: "d < 10 \<Longrightarrow> digit_char d \<in> set ''0123456789''"
  unfolding digit_char_def by (rule nth_mem) simp

lemma digits_chars: "set (digits n) \<subseteq> set ''0123456789''"
proof (induction n rule: digits.induct)
  case (1 n)
  show ?case
  proof (cases "n < 10")
    case True
    then show ?thesis using digit_char_is_digit [of n] by (subst digits.simps) simp
  next
    case False
    with "1" digit_char_is_digit [of "n mod 10"] show ?thesis
      by (subst digits.simps) auto
  qed
qed

lemma digits_not_empty: "digits n \<noteq> []"
  by (subst digits.simps) simp

lemma parse_nat_append:
  "parse_nat acc (xs @ ys) = (case parse_nat acc xs of None \<Rightarrow> None | Some a \<Rightarrow> parse_nat a ys)"
  by (induction xs arbitrary: acc) (auto split: option.splits)

lemma parse_nat_digits: "parse_nat 0 (digits n) = Some n"
proof (induction n rule: digits.induct)
  case (1 n)
  show ?case
  proof (cases "n < 10")
    case True
    then show ?thesis by (subst digits.simps) (simp add: digit_of_digit_char)
  next
    case False
    with "1" show ?thesis
      by (subst digits.simps) (simp add: parse_nat_append digit_of_digit_char)
  qed
qed

lemma toString_integer:
  "toString (Fin m 0) = (if m < 0 then ''-'' else '''') @ digits (nat \<bar>m\<bar>)"
  by (simp add: Let_def)

lemma Number_digits: "Number (Some (digits n)) = Fin (int n) 0"
proof -
  from digits_not_empty obtain c cs where s: "digits n = c # cs" by (cases "digits n") auto
  with digits_chars [of n] have c: "c \<in> set ''0123456789''" and cs: "set cs \<subseteq> set ''0123456789''"
    by auto
  from c have "c \<noteq> CHR ''-''" "c \<noteq> CHR ''+''" "c \<noteq> CHR ''I''" by auto
  with parse_nat_digits [of n] s show ?thesis by (simp add: Number_def)
qed

lemma Number_minus_digits: "Number (Some (CHR ''-'' # digits n)) = Fin (- int n) 0"
proof -
  from digits_not_empty obtain c cs where s: "digits n = c # cs" by (cases "digits n") auto
  with digits_chars [of n] have c: "c \<in> set ''0123456789''" by auto
  then have "c \<noteq> CHR ''I''" by auto
  with parse_nat_digits [of n] s show ?thesis by (simp add: Number_def)
qed

lemma Number_toString_integer: "Number (Some (toString (Fin m 0))) = Fin m 0"
  by (cases "m < 0") (simp_all add: toString_integer Number_digits Number_minus_digits)

lemma toString_integer_no_dot: "CHR ''.'' \<notin> set (toString (Fin m 0))"
  using digits_chars [of "nat \<bar>m\<bar>"] by (auto simp: toString_integer)

lemma js_split_not_empty: "js_split sep s \<noteq> []"
  by (induction s) (auto split: list.splits)

lemma js_split_no_sep: "sep \<notin> set s \<Longrightarrow> js_split sep s = [s]"
  by (induction s) auto

lemma js_split_append: "js_split sep (a @ sep # b) = js_split sep a @ js_split sep b"
  by (induction a) (auto split: list.splits simp: js_split_not_empty)

lemma js_join_split: "js_join [sep] (js_split sep s) = s"
proof (induction s)
  case Nil
  then show ?case by simp
next
  case (Cons c s)
  then show ?case
    by (cases "js_split sep s"; cases "tl (js_split sep s)") (auto simp: js_split_not_empty)
qed

lemma decode_virtual_index:
  assumes "CHR ''.'' \<notin> set op" "CHR ''.'' \<notin> set vs"
  shows "js_split (CHR ''.'') (path @ ''.'' @ op @ ''.'' @ vs) = js_split (CHR ''.'') path @ [op, vs]"
  using assms by (simp add: js_split_append js_split_no_sep)

lemma set_fold_set_add: "set (fold set_add xs acc) = set xs \<union> set acc"
  by (induction xs arbitrary: acc) (auto simp: set_add_def)

lemma set_fold_postings:
  "set (fold (\<lambda>range acc. case num_get range current of None \<Rightarrow> acc
                           | Some ids \<Rightarrow> fold set_add ids acc) keys acc) =
   set acc \<union> {d. \<exists>x \<in> set keys. \<exists>posting. num_get x current = Some posting \<and> d \<in> set posting}"
  by (induction keys arbitrary: acc) (auto simp: set_fold_set_add split: option.splits)

lemma createPredicate_compare:
  "op \<in> set allowedNumericComparison \<Longrightarrow>
   createPredicateForNumericComparison (Some op) v = (\<lambda>x. compare_num op x v)"
  by (auto simp: createPredicateForNumericComparison_def compare_num_def allowedNumericComparison_def)

lemma at_end_last_two:
  "at_end (xs @ [a, b]) 2 = Some a" "at_end (xs @ [a, b]) (Suc 0) = Some b"
  "take (length (xs @ [a, b]) - 2) (xs @ [a, b]) = xs"
  by (simp_all add: at_end_def nth_append)

lemma allowed_no_dot: "op \<in> set allowedNumericComparison \<Longrightarrow> CHR ''.'' \<notin> set op"
  by (auto simp: allowedNumericComparison_def)

lemma numeric_filter_decoded:
  assumes op: "op \<in> set allowedNumericComparison"
    and cur: "map_of (numericIndex s) path = Some current"
    and vs: "CHR ''.'' \<notin> set vs" "Number (Some vs) = v"
  shows "\<exists>ids. getDocumentIDsFromWhere s [] [path @ ''.'' @ op @ ''.'' @ vs] = Some ids \<and>
           set ids = {d. \<exists>x \<in> fst ` set current. \<exists>posting. num_get x current = Some posting \<and>
                          d \<in> set posting \<and> compare_num op x v}"
proof -
  have raw: "js_split (CHR ''.'') (path @ ''.'' @ op @ ''.'' @ vs) = js_split (CHR ''.'') path @ [op, vs]"
    by (rule decode_virtual_index [OF allowed_no_dot [OF op] vs(1)])
  have step: "numericIds_step s (path @ ''.'' @ op @ ''.'' @ vs) [] =
     fold (\<lambda>range acc. case num_get range current of None \<Rightarrow> acc | Some ids \<Rightarrow> fold set_add ids acc)
       (filter (\<lambda>x. compare_num op x v) (map fst current)) []"
    unfolding numericIds_step_def raw
    using cur js_join_split [of "CHR ''.''" path] vs(2)
    by (simp add: at_end_last_two createPredicate_compare [OF op] Let_def)
  show ?thesis
    unfolding getDocumentIDsFromWhere_def
    using step by (simp add: set_fold_postings booleanIds_of_def Let_def) auto
qed

text \<open>
  For an integer target, printed without a dot (in the plain notation of \<open>|m| < 1e21\<close>),
  the string is decoded as it was encoded, and the filter admits exactly the ids in the
  posting sets of the keys \<open>x\<close> with \<open>x op m\<close>.
\<close>

lemma numeric_filter_integer_target:
  assumes "op \<in> set allowedNumericComparison" "map_of (numericIndex s) path = Some current"
    and "\<bar>m\<bar> < 10 ^ 21"
  shows "\<exists>ids. getDocumentIDsFromWhere s [] [path @ ''.'' @ op @ ''.'' @ toString (Fin m 0)] = Some ids \<and>
           set ids = {d. \<exists>x \<in> fst ` set current. \<exists>posting. num_get x current = Some posting \<and>
                          d \<in> set posting \<and> compare_num op x (Fin m 0)}"
  by (rule numeric_filter_decoded [OF assms(1,2) toString_integer_no_dot Number_toString_integer])

text \<open>The string that a clause \<open>{key: {op: v}}\<close> on a numeric field is encoded as.\<close>

lemma numeric_clause_encoding:
  assumes "map_of sch key = Some (JStr ''number'')" "op \<in> set allowedNumericComparison"
  shows "getNonSearchableIndices (Some (JObj [(key, JObj [(op, JNum v)])])) (Some sch) pre =
         Inr ([], [pre @ key @ ''.'' @ op @ ''.'' @ toString v])"
  using assms
  by (simp add: getNonSearchableIndices_def handleNumeric_def Object_keys_def Let_def
           del: toString.simps)

subsection \<open>Deletion\<close>

lemma delete_keys_filter_indices:
  "booleanIndex (snd (delete_keys E docID doc s)) = booleanIndex s \<and>
   numericIndex (snd (delete_keys E docID doc s)) = numericIndex s"
  by (induction E docID doc s rule: delete_keys.induct)
     (auto simp: Let_def split: sum.splits prod.splits option.splits)

text \<open>
  Whatever the tokenizer and the trie do, and whether it returns or throws, \<open>delete\<close>
  leaves the boolean and the numeric index as they are.
\<close>

lemma delete_filter_indices:
  "booleanIndex (snd (delete E s docID)) = booleanIndex s \<and>
   numericIndex (snd (delete E s docID)) = numericIndex s"
proof (cases "map_of (docs s) docID")
  case None
  then show ?thesis by (simp add: delete_def)
next
  case (Some document)
  obtain r s' where d: "delete_keys E docID document s = (r, s')" by force
  with delete_keys_filter_indices [of E docID document s]
  have "booleanIndex s' = booleanIndex s \<and> numericIndex s' = numericIndex s" by simp
  with Some d show ?thesis by (cases r) (simp_all add: delete_def)
qed

text \<open>
  Claim C1 says that \<open>delete(d)\<close> removes \<open>d\<close> from every boolean and numeric posting
  set derived from the document's values. After \<open>insert\<close> of the first book as \<open>A\<close>,
  \<open>delete("A")\<close> leaves \<open>A\<close> in the posting set of \<open>inStock_true\<close> and in the posting
  set of the year 2022, for every tokenizer.
\<close>

theorem delete_leaves_postings:
  "map_of (booleanIndex (snd (delete E one_book ''A''))) ''inStock_true'' = Some [''A''] \<and>
   map_of (numericIndex (snd (delete E one_book ''A''))) ''year'' = Some [(Fin 2022 0, [''A''])]"
  by (simp add: delete_filter_indices one_book_def)

text \<open>
  With a tokenizer that fails on the number, that \<open>delete\<close> throws after it has emptied
  the text index, and the document stays in the table. With a tokenizer that returns no
  tokens for a value that is not a string, \<open>delete\<close> returns, but a text leaf inside a
  nested object is never looked at: the id stays in the index \<open>author.name\<close>, and a later
  search returns it, without a document.
\<close>

lemma delete_book_throws:
  "delete demo_env one_book ''A'' = (Inl TypeError, one_book\<lparr>index := [(''title'', [])]\<rparr>)"
  by code_simp

lemma delete_nested_text:
  "delete lenient_env nested_with_john ''A'' =
     (Inr True, nested_with_john\<lparr>docs := [], index := [(''title'', []), (''author.name'', [(''john'', [''A''])])]\<rparr>) \<and>
   search lenient_env (snd (delete lenient_env nested_with_john ''A'')) (lyra_query\<lparr>term := ''john''\<rparr>) None =
     Inr \<lparr>hits = Some [(''id'', JStr ''A'')] # replicate 9 None, count = 1\<rparr>"
  by code_simp

subsection \<open>Index construction\<close>

lemma keys_map_set [simp]: "fst ` set (map_set k v m) = insert k (fst ` set m)"
  by (induction k v m rule: map_set.induct) auto

lemma distinct_map_set [simp]: "distinct (map fst (map_set k v m)) = distinct (map fst m)"
  by (induction k v m rule: map_set.induct) auto

lemma values_map_set: "snd ` set (map_set k v m) \<subseteq> insert v (snd ` set m)"
  by (induction k v m rule: map_set.induct) auto

lemma values_map_set_empty [simp]:
  "snd ` set m \<subseteq> {[]} \<Longrightarrow> snd ` set (map_set k [] m) \<subseteq> {[]}"
  using values_map_set [of k "[]" m] by blast

lemma boolean_names_simps [simp]:
  "boolean_names [] = {}"
  "boolean_names (p # ps) = {p @ ''_true'', p @ ''_false''} \<union> boolean_names ps"
  "boolean_names (ps @ qs) = boolean_names ps \<union> boolean_names qs"
  by (auto simp: boolean_names_def)

lemma buildIndex_not_schema_type: "buildIndex sch prefix s \<noteq> Inl INVALID_SCHEMA_TYPE"
  by (induction sch prefix s rule: buildIndex.induct)
     (auto simp: typeof_key_def Let_def split: sum.splits)

lemma buildIndex_total: "no_null sch \<Longrightarrow> \<exists>s'. buildIndex sch prefix s = Inr s'"
proof (induction sch prefix s rule: buildIndex.induct)
  case (2 name kvs rest pre s)
  from "2" obtain s1 where s1: "buildIndex kvs (pre @ name @ ''.'') s = Inr s1"
    by (auto simp: typeof_key_def)
  with "2" show ?case by (auto simp: typeof_key_def)
qed (auto simp: typeof_key_def Let_def)

lemma buildIndex_fresh:
  "buildIndex sch prefix s = Inr s' \<Longrightarrow> fresh_indices s \<Longrightarrow> fresh_indices s'"
  by (induction sch prefix s arbitrary: s' rule: buildIndex.induct)
     (auto simp: typeof_key_def Let_def fresh_indices_def split: sum.splits if_splits)

lemma buildIndex_keys:
  "buildIndex sch prefix s = Inr s' \<Longrightarrow>
   fst ` set (index s') = fst ` set (index s) \<union> set (leaf_paths ''string'' sch prefix) \<and>
   fst ` set (numericIndex s') = fst ` set (numericIndex s) \<union> set (leaf_paths ''number'' sch prefix) \<and>
   fst ` set (booleanIndex s') = fst ` set (booleanIndex s) \<union> boolean_names (leaf_paths ''boolean'' sch prefix)"
  by (induction sch prefix s arbitrary: s' rule: buildIndex.induct)
     (auto simp: typeof_key_def Let_def split: sum.splits if_splits)

text \<open>
  Claim C7 says that index construction fails with \<open>InvalidSchemaType\<close> whenever a leaf
  is not one of the three known types. A leaf \<open>"date"\<close> is skipped instead: the
  constructor returns an engine without any index.
\<close>

theorem schema_type_counterexample:
  "new_Lyra demo_env [(''title'', JStr ''date'')] None =
     Inr \<lparr>defaultLanguage = ''english'', schema = [(''title'', JStr ''date'')], docs = [],
          index = [], numericIndex = [], booleanIndex = []\<rparr>"
  by code_simp

text \<open>
  Claim C7, amended. Index construction never fails with \<open>InvalidSchemaType\<close>: the name
  of a field is always a string, and a leaf that is none of \<open>"string"\<close>, \<open>"number"\<close>,
  \<open>"boolean"\<close> is skipped. For a supported default language and a schema without \<open>null\<close>
  it returns an engine, and the engine it returns has exactly one empty text index per
  \<open>"string"\<close> leaf and one empty numeric index per \<open>"number"\<close> leaf, under the flat path
  of the leaf, and two empty sets per \<open>"boolean"\<close> leaf, under the flat path followed by
  \<open>_true\<close> and by \<open>_false\<close>.
\<close>

theorem new_Lyra_indices:
  "new_Lyra E sch lang \<noteq> Inl INVALID_SCHEMA_TYPE \<and>
   ((case lang of None \<Rightarrow> ''english'' | Some l \<Rightarrow> toLowerCase l) \<in> set (SUPPORTED_LANGUAGES E) \<and>
    no_null sch \<longrightarrow> (\<exists>s. new_Lyra E sch lang = Inr s)) \<and>
   (\<forall>s. new_Lyra E sch lang = Inr s \<longrightarrow>
      fresh_indices s \<and>
      fst ` set (index s) = set (leaf_paths ''string'' sch []) \<and>
      fst ` set (numericIndex s) = set (leaf_paths ''number'' sch []) \<and>
      fst ` set (booleanIndex s) = boolean_names (leaf_paths ''boolean'' sch []))"
proof -
  let ?s0 = "\<lparr>defaultLanguage = (case lang of None \<Rightarrow> ''english'' | Some l \<Rightarrow> toLowerCase l),
              schema = sch, docs = [], index = [], numericIndex = [], booleanIndex = []\<rparr>"
  have a: "new_Lyra E sch lang \<noteq> Inl INVALID_SCHEMA_TYPE"
    using buildIndex_not_schema_type [of sch "[]" ?s0] by (simp add: new_Lyra_def Let_def)
  have b: "\<exists>s. new_Lyra E sch lang = Inr s"
    if "(case lang of None \<Rightarrow> ''english'' | Some l \<Rightarrow> toLowerCase l) \<in> set (SUPPORTED_LANGUAGES E)"
      and "no_null sch"
    using that buildIndex_total [of sch "[]" ?s0] by (simp add: new_Lyra_def Let_def)
  have c: "fresh_indices s \<and>
      fst ` set (index s) = set (leaf_paths ''string'' sch []) \<and>
      fst ` set (numericIndex s) = set (leaf_paths ''number'' sch []) \<and>
      fst ` set (booleanIndex s) = boolean_names (leaf_paths ''boolean'' sch [])"
    if "new_Lyra E sch lang = Inr s" for s
  proof -
    from that have s: "buildIndex sch [] ?s0 = Inr s"
      by (simp add: new_Lyra_def Let_def split: if_splits)
    have "fresh_indices ?s0" by (simp add: fresh_indices_def)
    with buildIndex_fresh [OF s] buildIndex_keys [OF s] show ?thesis by simp
  qed
  from a b c show ?thesis by blast
qed

theorem new_Lyra_indices_witness:
  "''english'' \<in> set (SUPPORTED_LANGUAGES demo_env) \<and> no_null demo_schema \<and>
   new_Lyra demo_env demo_schema None = Inr demo_engine \<and>
   fresh_indices demo_engine \<and>
   fst ` set (index demo_engine) = set (leaf_paths ''string'' demo_schema []) \<and>
   fst ` set (numericIndex demo_engine) = set (leaf_paths ''number'' demo_schema []) \<and>
   fst ` set (booleanIndex demo_engine) = boolean_names (leaf_paths ''boolean'' demo_schema []) \<and>
   leaf_paths ''string'' demo_schema [] = [''title''] \<and>
   leaf_paths ''number'' demo_schema [] = [''year''] \<and>
   leaf_paths ''boolean'' demo_schema [] = [''inStock'']"
proof -
  have l: "''english'' \<in> set (SUPPORTED_LANGUAGES demo_env)" by (simp add: demo_env_def)
  have n: "no_null demo_schema" by (simp add: demo_schema_def)
  have p: "leaf_paths ''string'' demo_schema [] = [''title'']"
    "leaf_paths ''number'' demo_schema [] = [''year'']"
    "leaf_paths ''boolean'' demo_schema [] = [''inStock'']"
    by (simp_all add: demo_schema_def)
  show ?thesis
    using l n p new_Lyra_demo new_Lyra_indices [of demo_env demo_schema None] by simp
qed

text \<open>The constructor fails in no other way than these two.\<close>

lemma buildIndex_errors: "buildIndex sch prefix s = Inl e \<Longrightarrow> e = TypeError"
  by (induction sch prefix s rule: buildIndex.induct)
     (auto simp: typeof_key_def Let_def split: sum.splits if_splits)

lemma new_Lyra_errors:
  "new_Lyra E sch lang = Inl e \<Longrightarrow> e = LANGUAGE_NOT_SUPPORTED \<or> e = TypeError"
  by (auto simp: new_Lyra_def Let_def split: if_splits dest: buildIndex_errors)

subsection \<open>The validation of a \<open>where\<close> clause\<close>

















end
